theory Spec2Isabelle
  imports
    Complex_Main
    "HOL-Library.Sublist"
    "HOL-Library.Multiset"
    "HOL-Library.Char_ord"
    "HOL-Library.List_Lexorder"
begin

section \<open>JavaScript values used by \<open>app.js\<close>\<close>

text \<open>
  Strings are sequences of code units.  The model takes the code units below 256
  (Latin-1, which covers the accented common names of the REST Countries data), so a
  JavaScript string is a HOL \<^typ>\<open>string\<close>.
\<close>

subsection \<open>\<open>String.prototype.trim\<close>\<close>

text \<open>
  The white space and line terminator code units below 256: TAB, LF, VT, FF, CR, SP and
  NBSP.
\<close>

definition whitespace :: "char \<Rightarrow> bool" where
  "whitespace c = ((of_char c :: nat) \<in> set [9, 10, 11, 12, 13, 32, 160])"

definition trim :: "string \<Rightarrow> string" where
  "trim s = rev (dropWhile whitespace (rev (dropWhile whitespace s)))"

subsection \<open>\<open>toLowerCase\<close>, \<open>includes\<close>, \<open>indexOf\<close>, \<open>substr\<close>\<close>

text \<open>
  Lower-casing of a Latin-1 code unit: \<open>A\<close>..\<open>Z\<close> and the accented capitals
  \<open>0xC0\<close>..\<open>0xDE\<close> (but the multiplication sign \<open>0xD7\<close>) move up by 32.
\<close>

definition toLowerCase_unit :: "char \<Rightarrow> char" where
  "toLowerCase_unit c =
     (let n = (of_char c :: nat)
      in if (65 \<le> n \<and> n \<le> 90) \<or> (192 \<le> n \<and> n \<le> 222 \<and> n \<noteq> 215)
         then char_of (n + 32) else c)"

definition toLowerCase :: "string \<Rightarrow> string" where
  "toLowerCase s = map toLowerCase_unit s"

text \<open>\<open>s.includes(t)\<close>: \<open>t\<close> occurs in \<open>s\<close> at some position.\<close>

fun includes_str :: "string \<Rightarrow> string \<Rightarrow> bool" where
  "includes_str [] t = (t = [])"
| "includes_str (c # s) t = (prefix t (c # s) \<or> includes_str s t)"

text \<open>\<open>s.indexOf(t)\<close>: the first position of \<open>t\<close> in \<open>s\<close>, or \<open>-1\<close>.\<close>

fun indexOf :: "string \<Rightarrow> string \<Rightarrow> int" where
  "indexOf [] t = (if t = [] then 0 else - 1)"
| "indexOf (c # s) t =
     (if prefix t (c # s) then 0
      else (let i = indexOf s t in if i < 0 then - 1 else i + 1))"

text \<open>
  \<open>s.substr(start, length)\<close> and \<open>s.substr(start)\<close>; a negative \<open>start\<close> counts from the
  end of the string.
\<close>

definition substr_from :: "string \<Rightarrow> int \<Rightarrow> string" where
  "substr_from s start =
     (let len = int (length s);
          k = (if start < 0 then max (len + start) 0 else min start len)
      in drop (nat k) s)"

definition substr :: "string \<Rightarrow> int \<Rightarrow> int \<Rightarrow> string" where
  "substr s start n = take (nat n) (substr_from s start)"

subsection \<open>Numbers in template strings\<close>

fun string_of_nat :: "nat \<Rightarrow> string" where
  "string_of_nat n =
     (if n < 10 then [char_of (48 + n)]
      else string_of_nat (n div 10) @ [char_of (48 + n mod 10)])"

declare string_of_nat.simps [simp del]

definition string_of_int :: "int \<Rightarrow> string" where
  "string_of_int i =
     (if i < 0 then CHR ''-'' # string_of_nat (nat (- i)) else string_of_nat (nat i))"

subsection \<open>\<open>Array.prototype.slice\<close> and \<open>Array.prototype.sort\<close>\<close>

definition slice :: "'a list \<Rightarrow> int \<Rightarrow> int \<Rightarrow> 'a list" where
  "slice xs start fin =
     (let len = int (length xs);
          k = (if start < 0 then max (len + start) 0 else min start len);
          e = (if fin < 0 then max (len + fin) 0 else min fin len)
      in take (nat (e - k)) (drop (nat k) xs))"

text \<open>
  \<open>sort\<close> with a comparator is stable: an element goes in front of the first element of
  the sorted rest that it does not follow (\<open>cmp x y \<le> 0\<close>).  The order is the
  comparator's whenever the comparator is consistent; ECMAScript leaves the order open
  otherwise.
\<close>

fun insert_by :: "('a \<Rightarrow> 'a \<Rightarrow> int) \<Rightarrow> 'a \<Rightarrow> 'a list \<Rightarrow> 'a list" where
  "insert_by cmp x [] = [x]"
| "insert_by cmp x (y # ys) =
     (if cmp x y \<le> 0 then x # y # ys else y # insert_by cmp x ys)"

definition sort_by :: "('a \<Rightarrow> 'a \<Rightarrow> int) \<Rightarrow> 'a list \<Rightarrow> 'a list" where
  "sort_by cmp xs = foldr (insert_by cmp) xs []"

text \<open>
  An array may hold \<open>undefined\<close> (\<^term>\<open>None\<close>): \<open>sort\<close> never passes it to the comparator
  and moves it behind every defined element.
\<close>

definition array_sort :: "('a \<Rightarrow> 'a \<Rightarrow> int) \<Rightarrow> 'a option list \<Rightarrow> 'a option list" where
  "array_sort cmp xs =
     map Some (sort_by cmp (List.map_filter (\<lambda>x. x) xs)) @ filter (\<lambda>x. x = None) xs"

definition consistent :: "('a \<Rightarrow> 'a \<Rightarrow> int) \<Rightarrow> bool" where
  "consistent cmp =
     ((\<forall>a b. cmp a b \<le> 0 \<or> cmp b a \<le> 0) \<and>
      (\<forall>a b c. cmp a b \<le> 0 \<longrightarrow> cmp b c \<le> 0 \<longrightarrow> cmp a c \<le> 0))"


section \<open>Data model\<close>

text \<open>
  A country as the REST Countries API returns it, with the fields the modelled code
  reads: \<open>name.common\<close>, \<open>cca2\<close>, \<open>capital\<close> (an array, or absent), \<open>region\<close> and
  \<open>flags.png\<close>.
\<close>

record country =
  name_common :: string
  cca2 :: string
  capital :: "string list option"
  region :: string
  flags_png :: string

text \<open>
  What \<open>res.json()\<close> yields: an array of countries, an object without indexed
  properties (the API's error body \<open>{status, message}\<close>), or \<open>null\<close>.  A \<open>fetch\<close> settles
  with a transport failure (\<open>fetch\<close> rejects), an unparsable body (\<open>res.json()\<close> rejects)
  or a JSON value.
\<close>

datatype json = JArray "country list" | JObject | JNull

datatype response = NetworkError | InvalidJson | Json json

text \<open>
  A call either returns or throws; the assignments made before the \<open>throw\<close> stay, so both
  completions carry the state.
\<close>

datatype 's completion = Normal 's | Abrupt 's

fun state_of :: "'s completion \<Rightarrow> 's" where
  "state_of (Normal s) = s"
| "state_of (Abrupt s) = s"

fun throws :: "'s completion \<Rightarrow> bool" where
  "throws (Normal s) = False"
| "throws (Abrupt s) = True"

datatype display = DisplayNone | DisplayBlock

text \<open>The children of \<open>#country-list\<close>: cards, or the "No countries found" message.\<close>

datatype list_item = Card country | NoCountriesFoundMessage

text \<open>The content of \<open>#pagination\<close>: the page info and the two buttons.\<close>

record controls =
  page :: int
  pages :: int
  prev_disabled :: bool
  next_disabled :: bool

text \<open>A button of \<open>#suggestions\<close>: the name split around the part set in bold.\<close>

record suggestion =
  before :: string
  strong :: string
  after :: string
  target :: country

text \<open>
  The requests the code sends: \<open>/v3.1/all\<close>, \<open>/v3.1/name/{name}\<close>, \<open>/v3.1/alpha/{code}\<close>,
  \<open>/v3.1/capital/{capital}\<close>, \<open>/v3.1/region/{region}\<close>, and the POST of
  \<open>{rating, comment}\<close> to \<open>/api/feedback\<close>.
\<close>

datatype fetch_call =
    FetchAll
  | FetchName string
  | FetchAlpha string
  | FetchCapital string
  | FetchRegion string
  | PostFeedback int string

datatype console_entry = Log string | Error string

datatype timer = FeedbackAutoClose

text \<open>
  The state: the script's global variables, the parts of the document it reads and
  writes, and what it has handed to the browser (alerts, console lines, requests and
  timeouts, each in the order of the calls).
\<close>

record state =
  currentPage :: int
  paginatedCountries :: "country option list"
  allCountries :: "country list"
  selectedRating :: int
  loader_hidden :: bool
  searchPlaceholder :: display
  searchName :: string
  searchCode :: string
  searchCapital :: string
  searchRegion :: string
  country_list :: "list_item list"
  countryCount :: string
  pagination :: "controls option"
  suggestions :: "suggestion list"
  suggestions_display :: display
  feedbackText :: string
  ratingText :: string
  stars :: "bool list"
  feedbackSuccessMsg_hidden :: bool
  feedbackModal_shown :: bool
  alerts :: "string list"
  console :: "console_entry list"
  fetches :: "fetch_call list"
  timers :: "(nat \<times> timer) list"

definition itemsPerPage :: int where
  "itemsPerPage = 9"

text \<open>The script's declarations, run on the document as the page delivers it.\<close>

definition initial :: "state \<Rightarrow> state" where
  "initial document =
     document\<lparr>currentPage := 1, paginatedCountries := [], allCountries := [],
       selectedRating := 0\<rparr>"

section \<open>Loader, promise chains, loading the catalog\<close>

definition showLoader :: "state \<Rightarrow> state" where
  "showLoader s = s\<lparr>loader_hidden := False\<rparr>"

definition hideLoader :: "state \<Rightarrow> state" where
  "hideLoader s = s\<lparr>loader_hidden := True\<rparr>"

text \<open>
  \<open>fetch(url).then(res => res.json()).then(on_data).catch(on_error)\<close>, once the request
  has settled: \<open>on_error\<close> runs when the request or the parse rejects, and when \<open>on_data\<close>
  throws.
\<close>

definition settle ::
  "(json \<Rightarrow> state \<Rightarrow> state completion) \<Rightarrow> (state \<Rightarrow> state) \<Rightarrow> response \<Rightarrow> state \<Rightarrow> state"
where
  "settle on_data on_error r s =
     (case r of
        NetworkError \<Rightarrow> on_error s
      | InvalidJson \<Rightarrow> on_error s
      | Json data \<Rightarrow>
          (case on_data data s of
             Normal s' \<Rightarrow> s'
           | Abrupt s' \<Rightarrow> on_error s'))"

text \<open>The comparator \<open>(a, b) => a.name.common.localeCompare(b.name.common)\<close>.\<close>

definition by_common_name :: "(string \<Rightarrow> string \<Rightarrow> int) \<Rightarrow> country \<Rightarrow> country \<Rightarrow> int" where
  "by_common_name localeCompare a b = localeCompare (name_common a) (name_common b)"

definition loadAllCountries :: "state \<Rightarrow> state" where
  "loadAllCountries s = (showLoader s)\<lparr>fetches := fetches s @ [FetchAll]\<rparr>"

definition loadAllCountries_then ::
  "(string \<Rightarrow> string \<Rightarrow> int) \<Rightarrow> json \<Rightarrow> state \<Rightarrow> state completion" where
  "loadAllCountries_then localeCompare data s =
     (case data of
        JArray cs \<Rightarrow>
          Normal ((hideLoader s)\<lparr>allCountries := sort_by (by_common_name localeCompare) cs\<rparr>)
      | JObject \<Rightarrow> Abrupt (hideLoader s)
      | JNull \<Rightarrow> Abrupt (hideLoader s))"

definition loadAllCountries_catch :: "state \<Rightarrow> state" where
  "loadAllCountries_catch s = (hideLoader s)\<lparr>console := console s @ [Error []]\<rparr>"

section \<open>Pagination\<close>

definition updateCountryCount :: "nat \<Rightarrow> state \<Rightarrow> state" where
  "updateCountryCount n s =
     s\<lparr>countryCount := ''('' @ string_of_nat n @ '' countries found)''\<rparr>"

definition showNoCountriesFound :: "state \<Rightarrow> state" where
  "showNoCountriesFound s =
     updateCountryCount 0 (s\<lparr>country_list := [NoCountriesFoundMessage], pagination := None\<rparr>)"

text \<open>\<open>Math.ceil(paginatedCountries.length / itemsPerPage)\<close>\<close>

definition totalPages :: "state \<Rightarrow> int" where
  "totalPages s = \<lceil>real (length (paginatedCountries s)) / real_of_int itemsPerPage\<rceil>"

definition updatePaginationControls :: "state \<Rightarrow> state" where
  "updatePaginationControls s =
     (if length (paginatedCountries s) = 0 then s\<lparr>pagination := None\<rparr>
      else s\<lparr>pagination := Some \<lparr>page = currentPage s, pages = totalPages s,
                 prev_disabled = (currentPage s = 1),
                 next_disabled = (currentPage s = totalPages s)\<rparr>\<rparr>)"

text \<open>
  The \<open>forEach\<close> of \<open>displayCountries\<close>: a card is appended for each country; reading
  \<open>country.cca2\<close> of \<open>undefined\<close> throws a \<open>TypeError\<close>.
\<close>

fun append_cards :: "country option list \<Rightarrow> state \<Rightarrow> state completion" where
  "append_cards [] s = Normal s"
| "append_cards (None # cs) s = Abrupt s"
| "append_cards (Some c # cs) s =
     append_cards cs (s\<lparr>country_list := country_list s @ [Card c]\<rparr>)"

definition displayCountries :: "country option list \<Rightarrow> state \<Rightarrow> state completion" where
  "displayCountries countries s =
     append_cards countries
       (updateCountryCount (length (paginatedCountries s))
          (s\<lparr>searchPlaceholder := DisplayNone, country_list := []\<rparr>))"

definition renderPage :: "state \<Rightarrow> state completion" where
  "renderPage s =
     (if length (paginatedCountries s) = 0 then Normal (showNoCountriesFound s)
      else
        (let start = (currentPage s - 1) * itemsPerPage;
             fin = start + itemsPerPage;
             sliced = slice (paginatedCountries s) start fin
         in case displayCountries sliced s of
              Normal s' \<Rightarrow> Normal (updatePaginationControls s')
            | Abrupt s' \<Rightarrow> Abrupt s'))"

definition applyPagination ::
  "(string \<Rightarrow> string \<Rightarrow> int) \<Rightarrow> country option list \<Rightarrow> state \<Rightarrow> state completion" where
  "applyPagination localeCompare countries s =
     renderPage
       (s\<lparr>paginatedCountries := array_sort (by_common_name localeCompare) countries,
          currentPage := 1\<rparr>)"

definition prevPage :: "state \<Rightarrow> state completion" where
  "prevPage s =
     (if currentPage s > 1 then renderPage (s\<lparr>currentPage := currentPage s - 1\<rparr>)
      else Normal s)"

definition nextPage :: "state \<Rightarrow> state completion" where
  "nextPage s =
     (if currentPage s < totalPages s then renderPage (s\<lparr>currentPage := currentPage s + 1\<rparr>)
      else Normal s)"

section \<open>Search\<close>

definition searchByName :: "string \<Rightarrow> state \<Rightarrow> state" where
  "searchByName name s = (showLoader s)\<lparr>fetches := fetches s @ [FetchName name]\<rparr>"

definition searchByName_then ::
  "(string \<Rightarrow> string \<Rightarrow> int) \<Rightarrow> json \<Rightarrow> state \<Rightarrow> state completion" where
  "searchByName_then localeCompare data s =
     (case data of
        JArray cs \<Rightarrow> applyPagination localeCompare (map Some cs) (hideLoader s)
      | JObject \<Rightarrow> Abrupt (hideLoader s)
      | JNull \<Rightarrow> Abrupt (hideLoader s))"

definition searchByName_catch :: "(string \<Rightarrow> string \<Rightarrow> int) \<Rightarrow> state \<Rightarrow> state" where
  "searchByName_catch localeCompare s =
     state_of (applyPagination localeCompare [] (hideLoader s))"

definition searchByCode :: "string \<Rightarrow> state \<Rightarrow> state" where
  "searchByCode code s = (showLoader s)\<lparr>fetches := fetches s @ [FetchAlpha code]\<rparr>"

text \<open>
  \<open>data[0]\<close>: the first element of an array, \<open>undefined\<close> for an empty array and for an
  object without the property \<open>0\<close>, a \<open>TypeError\<close> for \<open>null\<close> (the outer \<^term>\<open>None\<close>).
\<close>

fun element_0 :: "json \<Rightarrow> country option option" where
  "element_0 (JArray []) = Some None"
| "element_0 (JArray (c # cs)) = Some (Some c)"
| "element_0 JObject = Some None"
| "element_0 JNull = None"

definition searchByCode_then ::
  "(string \<Rightarrow> string \<Rightarrow> int) \<Rightarrow> json \<Rightarrow> state \<Rightarrow> state completion" where
  "searchByCode_then localeCompare data s =
     (case element_0 data of
        Some x \<Rightarrow> applyPagination localeCompare [x] (hideLoader s)
      | None \<Rightarrow> Abrupt (hideLoader s))"

definition searchByCode_catch :: "state \<Rightarrow> state" where
  "searchByCode_catch s = (hideLoader s)\<lparr>alerts := alerts s @ [''Invalid country code!'']\<rparr>"

definition searchByCapital :: "string \<Rightarrow> state \<Rightarrow> state" where
  "searchByCapital cap s = (showLoader s)\<lparr>fetches := fetches s @ [FetchCapital cap]\<rparr>"

definition searchByCapital_then ::
  "(string \<Rightarrow> string \<Rightarrow> int) \<Rightarrow> json \<Rightarrow> state \<Rightarrow> state completion" where
  "searchByCapital_then localeCompare data s =
     (case data of
        JArray cs \<Rightarrow> applyPagination localeCompare (map Some cs) (hideLoader s)
      | JObject \<Rightarrow> Abrupt (hideLoader s)
      | JNull \<Rightarrow> Abrupt (hideLoader s))"

definition searchByCapital_catch :: "state \<Rightarrow> state" where
  "searchByCapital_catch s =
     (hideLoader s)\<lparr>alerts := alerts s @ [''No country with that capital!'']\<rparr>"

definition searchByRegion :: "string \<Rightarrow> state \<Rightarrow> state" where
  "searchByRegion reg s = (showLoader s)\<lparr>fetches := fetches s @ [FetchRegion reg]\<rparr>"

definition searchByRegion_then ::
  "(string \<Rightarrow> string \<Rightarrow> int) \<Rightarrow> json \<Rightarrow> state \<Rightarrow> state completion" where
  "searchByRegion_then localeCompare data s =
     (case data of
        JArray cs \<Rightarrow> applyPagination localeCompare (map Some cs) (hideLoader s)
      | JObject \<Rightarrow> Abrupt (hideLoader s)
      | JNull \<Rightarrow> Abrupt (hideLoader s))"

definition searchByRegion_catch :: "state \<Rightarrow> state" where
  "searchByRegion_catch s = (hideLoader s)\<lparr>alerts := alerts s @ [''Region not found!'']\<rparr>"

text \<open>
  \<open>searchCountries\<close> reads the four inputs; the name, the code and the capital are
  trimmed, the region is the value of the \<open>select\<close> as it is.
\<close>

definition searchCountries :: "state \<Rightarrow> state" where
  "searchCountries s =
     (let s' = s\<lparr>searchPlaceholder := DisplayNone\<rparr>;
          name = trim (searchName s');
          code = trim (searchCode s');
          cap = trim (searchCapital s');
          reg = searchRegion s'
      in if name \<noteq> [] then searchByName name s'
         else if code \<noteq> [] then searchByCode code s'
         else if cap \<noteq> [] then searchByCapital cap s'
         else if reg \<noteq> [] then searchByRegion reg s'
         else loadAllCountries s')"

definition resetFilters :: "state \<Rightarrow> state" where
  "resetFilters s =
     s\<lparr>searchName := [], searchCode := [], searchCapital := [], searchRegion := [],
       suggestions := [], suggestions_display := DisplayNone,
       country_list := [], pagination := None,
       searchPlaceholder := DisplayBlock, countryCount := []\<rparr>"

section \<open>Autocomplete\<close>

definition suggestion_for :: "string \<Rightarrow> country \<Rightarrow> suggestion" where
  "suggestion_for input c =
     (let index = indexOf (toLowerCase (name_common c)) (toLowerCase input);
          n = int (length input)
      in \<lparr>before = substr (name_common c) 0 index,
          strong = substr (name_common c) index n,
          after = substr_from (name_common c) (index + n),
          target = c\<rparr>)"

definition matches :: "string \<Rightarrow> country list \<Rightarrow> country list" where
  "matches input catalog =
     slice
       (filter (\<lambda>c. includes_str (toLowerCase (name_common c)) (toLowerCase input)) catalog)
       0 5"

definition showSuggestions :: "string \<Rightarrow> state \<Rightarrow> state" where
  "showSuggestions input s =
     (let s' = s\<lparr>suggestions := []\<rparr>
      in if input = [] then s'\<lparr>suggestions_display := DisplayNone\<rparr>
         else if length (matches input (allCountries s')) = 0
           then s'\<lparr>suggestions_display := DisplayNone\<rparr>
         else s'\<lparr>suggestions_display := DisplayBlock,
                suggestions := map (suggestion_for input) (matches input (allCountries s'))\<rparr>)"

text \<open>The \<open>mousedown\<close> handler of the button of country \<open>c\<close>.\<close>

definition select_suggestion ::
  "(string \<Rightarrow> string \<Rightarrow> int) \<Rightarrow> country \<Rightarrow> state \<Rightarrow> state completion" where
  "select_suggestion localeCompare c s =
     applyPagination localeCompare [Some c]
       (s\<lparr>searchName := name_common c, suggestions := [],
          suggestions_display := DisplayNone\<rparr>)"

section \<open>Feedback\<close>

definition setRating :: "int \<Rightarrow> state \<Rightarrow> state" where
  "setRating rating s =
     s\<lparr>selectedRating := rating,
       stars := map (\<lambda>index. int index < rating) [0 ..< length (stars s)],
       ratingText :=
         ''You rated this '' @ string_of_int rating @ '' star''
           @ (if rating > 1 then ''s'' else [])\<rparr>"

definition submitFeedback :: "state \<Rightarrow> state" where
  "submitFeedback s =
     (let feedback = trim (feedbackText s)
      in if selectedRating s = 0
           then s\<lparr>alerts := alerts s @ [''Please select a star rating.'']\<rparr>
         else if feedback = []
           then s\<lparr>alerts := alerts s @ [''Please enter your feedback or query.'']\<rparr>
         else
           s\<lparr>fetches := fetches s @ [PostFeedback (selectedRating s) feedback],
             console := console s @ [Log ''Rating:'', Log ''Feedback:''],
             feedbackSuccessMsg_hidden := False,
             timers := timers s @ [(2000, FeedbackAutoClose)]\<rparr>)"

text \<open>The two handlers of the POST: both only write to the console.\<close>

definition submitFeedback_then :: "state \<Rightarrow> state" where
  "submitFeedback_then s = s\<lparr>console := console s @ [Log ''Saved to DB:'']\<rparr>"

definition submitFeedback_catch :: "state \<Rightarrow> state" where
  "submitFeedback_catch s = s\<lparr>console := console s @ [Error ''Error saving feedback:'']\<rparr>"

definition submitFeedback_settled :: "response \<Rightarrow> state \<Rightarrow> state" where
  "submitFeedback_settled r s =
     (case r of
        NetworkError \<Rightarrow> submitFeedback_catch s
      | InvalidJson \<Rightarrow> submitFeedback_catch s
      | Json data \<Rightarrow> submitFeedback_then s)"

text \<open>The callback given to \<open>setTimeout\<close>.\<close>

fun timeout :: "timer \<Rightarrow> state \<Rightarrow> state" where
  "timeout FeedbackAutoClose s =
     s\<lparr>selectedRating := 0, feedbackText := [], ratingText := [],
       stars := map (\<lambda>star. False) (stars s),
       feedbackSuccessMsg_hidden := True,
       feedbackModal_shown := False\<rparr>"

section \<open>Notions of the specification\<close>

text \<open>
  The invariant of the pagination cursor:
  \<open>1 \<le> currentPage \<le> max(1, ceil(|ResultSet| / pageSize))\<close>.
\<close>

definition cursor_invariant :: "state \<Rightarrow> bool" where
  "cursor_invariant s =
     (1 \<le> currentPage s \<and>
      currentPage s \<le>
        max 1 \<lceil>real (length (paginatedCountries s)) / real_of_int itemsPerPage\<rceil>)"

text \<open>
  A lookup fails when its request or the parse of its body rejects, or when the body is
  not an array of countries (the API answers an unknown key with an error object).
\<close>

fun failed :: "response \<Rightarrow> bool" where
  "failed NetworkError = True"
| "failed InvalidJson = True"
| "failed (Json (JArray cs)) = False"
| "failed (Json JObject) = True"
| "failed (Json JNull) = True"

text \<open>The common name contains the query, case-insensitively.\<close>

definition contains_ci :: "country \<Rightarrow> string \<Rightarrow> bool" where
  "contains_ci c query = sublist (toLowerCase query) (toLowerCase (name_common c))"

text \<open>A string is blank when it is empty or has white space only.\<close>

definition blank :: "string \<Rightarrow> bool" where
  "blank s = list_all whitespace s"

text \<open>Two names that the comparator ranks alike.\<close>

definition same_rank :: "(string \<Rightarrow> string \<Rightarrow> int) \<Rightarrow> string \<Rightarrow> string \<Rightarrow> bool" where
  "same_rank localeCompare a b = (localeCompare a b \<le> 0 \<and> localeCompare b a \<le> 0)"

text \<open>
  The state without what rendering writes: the placeholder, the cards, the count and the
  pagination controls.
\<close>

definition unrendered :: "state \<Rightarrow> state" where
  "unrendered s =
     s\<lparr>searchPlaceholder := DisplayNone, country_list := [], countryCount := [],
       pagination := None\<rparr>"

section \<open>Example data\<close>

text \<open>A consistent comparator: the order of the code units.\<close>

definition compare_units :: "string \<Rightarrow> string \<Rightarrow> int" where
  "compare_units a b = (if a < b then - 1 else if a = b then 0 else 1)"

definition country_named :: "string \<Rightarrow> country" where
  "country_named n =
     \<lparr>name_common = n, cca2 = [], capital = None, region = [], flags_png = []\<rparr>"

definition empty_document :: state where
  "empty_document =
     \<lparr>currentPage = 1, paginatedCountries = [], allCountries = [], selectedRating = 0,
      loader_hidden = True, searchPlaceholder = DisplayBlock,
      searchName = [], searchCode = [], searchCapital = [], searchRegion = [],
      country_list = [], countryCount = [], pagination = None,
      suggestions = [], suggestions_display = DisplayNone,
      feedbackText = [], ratingText = [], stars = replicate 5 False,
      feedbackSuccessMsg_hidden = True, feedbackModal_shown = True,
      alerts = [], console = [], fetches = [], timers = []\<rparr>"

text \<open>The catalog of three countries, loaded and sorted.\<close>

definition catalog_example :: state where
  "catalog_example =
     empty_document\<lparr>allCountries := map country_named [''Chad'', ''Chile'', ''China'']\<rparr>"

definition costa_rica_catalog :: state where
  "costa_rica_catalog = empty_document\<lparr>allCountries := [country_named ''Costa Rica'']\<rparr>"

text \<open>Ten results, shown from page 1; one result, rendered.\<close>

definition ten_results :: state where
  "ten_results =
     empty_document\<lparr>paginatedCountries :=
       map (\<lambda>n. Some (country_named n))
         [''Afghanistan'', ''Albania'', ''Algeria'', ''Andorra'', ''Angola'',
          ''Argentina'', ''Armenia'', ''Australia'', ''Austria'', ''Azerbaijan'']\<rparr>"

definition one_result :: state where
  "one_result =
     empty_document\<lparr>paginatedCountries := [Some (country_named ''Chad'')],
       country_list := [Card (country_named ''Chad'')],
       countryCount := ''(1 countries found)''\<rparr>"

text \<open>Three stars chosen and the comment \<open>great\<close> typed.\<close>

definition rated_great :: state where
  "rated_great = (setRating 3 empty_document)\<lparr>feedbackText := ''great''\<rparr>"

section \<open>Strings and arrays\<close>

lemma string_of_nat_0: "string_of_nat 0 = ''0''"
  by code_simp

lemma string_of_nat_1: "string_of_nat (Suc 0) = ''1''"
  by code_simp

text \<open>A string trims to the empty string exactly when it is blank.\<close>

lemma trim_Nil_iff: "trim s = [] \<longleftrightarrow> blank s"
proof
  assume "trim s = []"
  then have all: "\<forall>x \<in> set (dropWhile whitespace s). whitespace x"
    by (simp add: trim_def dropWhile_eq_Nil_conv)
  have "dropWhile whitespace s = []"
  proof (rule ccontr)
    assume ne: "dropWhile whitespace s \<noteq> []"
    then have "\<not> whitespace (hd (dropWhile whitespace s))" by (rule hd_dropWhile)
    moreover from ne have "hd (dropWhile whitespace s) \<in> set (dropWhile whitespace s)" by simp
    ultimately show False using all by blast
  qed
  then show "blank s" by (simp add: dropWhile_eq_Nil_conv blank_def list_all_iff)
next
  assume "blank s"
  then show "trim s = []"
    by (auto simp: trim_def dropWhile_eq_Nil_conv blank_def list_all_iff dest: set_dropWhileD)
qed

text \<open>\<open>includes\<close> is the test for a contiguous sublist.\<close>

lemma includes_str_sublist: "includes_str s t \<longleftrightarrow> sublist t s"
  by (induction s) (auto simp: sublist_Cons_right)

lemma slice_0: "0 \<le> n \<Longrightarrow> slice xs 0 n = take (nat n) xs"
  by (auto simp: slice_def Let_def min_def)

lemma slice_map: "slice (map f xs) a b = map f (slice xs a b)"
  by (simp add: slice_def Let_def take_map drop_map)

subsection \<open>Sorting with a consistent comparator\<close>

lemma mset_insert_by: "mset (insert_by cmp x ys) = add_mset x (mset ys)"
  by (induction ys) auto

lemma mset_sort_by: "mset (sort_by cmp xs) = mset xs"
  by (induction xs) (auto simp: sort_by_def mset_insert_by)

lemma set_insert_by: "set (insert_by cmp x ys) = insert x (set ys)"
  by (induction ys) auto

lemma sorted_insert_by:
  assumes "consistent cmp" "sorted_wrt (\<lambda>a b. cmp a b \<le> 0) ys"
  shows "sorted_wrt (\<lambda>a b. cmp a b \<le> 0) (insert_by cmp x ys)"
  using assms(2)
proof (induction ys)
  case Nil
  then show ?case by simp
next
  case (Cons y ys)
  from assms(1) have tot: "\<And>a b. cmp a b \<le> 0 \<or> cmp b a \<le> 0"
    and tr: "\<And>a b c. cmp a b \<le> 0 \<Longrightarrow> cmp b c \<le> 0 \<Longrightarrow> cmp a c \<le> 0"
    unfolding consistent_def by blast+
  show ?case
  proof (cases "cmp x y \<le> 0")
    case True
    with Cons.prems tr show ?thesis by auto
  next
    case False
    with tot have "cmp y x \<le> 0" by blast
    with False Cons show ?thesis by (auto simp: set_insert_by)
  qed
qed

lemma sorted_sort_by:
  "consistent cmp \<Longrightarrow> sorted_wrt (\<lambda>a b. cmp a b \<le> 0) (sort_by cmp xs)"
  by (induction xs) (auto simp: sort_by_def sorted_insert_by)

text \<open>Stability: the elements of one rank keep their order.\<close>

lemma filter_insert_by:
  assumes tr: "\<And>a b c. cmp a b \<le> 0 \<Longrightarrow> cmp b c \<le> 0 \<Longrightarrow> cmp a c \<le> 0"
    and E: "\<And>a. E a \<longleftrightarrow> cmp a k \<le> 0 \<and> cmp k a \<le> 0"
  shows "filter E (insert_by cmp x ys) = (if E x then x # filter E ys else filter E ys)"
proof (induction ys)
  case Nil
  show ?case by simp
next
  case (Cons y ys)
  show ?case
  proof (cases "cmp x y \<le> 0")
    case True
    then show ?thesis by simp
  next
    case False
    have "\<not> (E x \<and> E y)"
    proof
      assume "E x \<and> E y"
      then have "cmp x k \<le> 0" "cmp k y \<le> 0" using E by blast+
      then have "cmp x y \<le> 0" by (rule tr)
      with False show False by simp
    qed
    with False Cons show ?thesis by auto
  qed
qed

lemma filter_sort_by:
  assumes "consistent cmp"
  shows "filter (\<lambda>a. cmp a k \<le> 0 \<and> cmp k a \<le> 0) (sort_by cmp xs)
       = filter (\<lambda>a. cmp a k \<le> 0 \<and> cmp k a \<le> 0) xs"
proof -
  from assms have tr: "\<And>a b c. cmp a b \<le> 0 \<Longrightarrow> cmp b c \<le> 0 \<Longrightarrow> cmp a c \<le> 0"
    unfolding consistent_def by blast
  show ?thesis
  proof (induction xs)
    case Nil
    show ?case by (simp add: sort_by_def)
  next
    case (Cons x xs)
    have "filter (\<lambda>a. cmp a k \<le> 0 \<and> cmp k a \<le> 0) (insert_by cmp x (sort_by cmp xs))
        = (if cmp x k \<le> 0 \<and> cmp k x \<le> 0
           then x # filter (\<lambda>a. cmp a k \<le> 0 \<and> cmp k a \<le> 0) (sort_by cmp xs)
           else filter (\<lambda>a. cmp a k \<le> 0 \<and> cmp k a \<le> 0) (sort_by cmp xs))"
      by (rule filter_insert_by [OF tr]) auto
    with Cons show ?case by (simp add: sort_by_def)
  qed
qed

lemma consistent_by_common_name:
  "consistent localeCompare \<Longrightarrow> consistent (by_common_name localeCompare)"
  unfolding consistent_def by_common_name_def by blast

lemma consistent_compare_units: "consistent compare_units"
  unfolding consistent_def compare_units_def by auto

lemma array_sort_defined: "array_sort cmp (map Some cs) = map Some (sort_by cmp cs)"
  by (simp add: array_sort_def map_filter_map_filter map_filter_def comp_def)

lemma array_sort_single: "array_sort cmp [x] = [x]"
  by (cases x) (simp_all add: array_sort_def map_filter_def sort_by_def)

lemma array_sort_Nil: "array_sort cmp [] = []"
  by (simp add: array_sort_def map_filter_def sort_by_def)

section \<open>Rendering\<close>

text \<open>Rendering writes the rendered parts of the state and nothing else.\<close>

lemma unrendered_append_cards: "unrendered (state_of (append_cards cs s)) = unrendered s"
proof (induction cs s rule: append_cards.induct)
  case (1 s)
  show ?case by simp
next
  case (2 cs s)
  show ?case by simp
next
  case (3 c cs s)
  then show ?case by (simp add: unrendered_def)
qed

lemma unrendered_displayCountries:
  "unrendered (state_of (displayCountries cs s)) = unrendered s"
  by (simp add: displayCountries_def unrendered_append_cards)
     (simp add: unrendered_def updateCountryCount_def)

lemma unrendered_renderPage: "unrendered (state_of (renderPage s)) = unrendered s"
proof (cases "length (paginatedCountries s) = 0")
  case True
  then show ?thesis
    by (simp add: renderPage_def showNoCountriesFound_def updateCountryCount_def unrendered_def)
next
  case False
  let ?d = "displayCountries
      (slice (paginatedCountries s) ((currentPage s - 1) * itemsPerPage)
         ((currentPage s - 1) * itemsPerPage + itemsPerPage)) s"
  have u: "unrendered (updatePaginationControls t) = unrendered t" for t
    by (simp add: updatePaginationControls_def unrendered_def)
  have "unrendered (state_of ?d) = unrendered s" by (rule unrendered_displayCountries)
  with False show ?thesis
    by (cases ?d) (simp_all add: renderPage_def Let_def u)
qed

lemma frame:
  assumes "unrendered t = unrendered s"
  shows "currentPage t = currentPage s" "paginatedCountries t = paginatedCountries s"
    "allCountries t = allCountries s" "selectedRating t = selectedRating s"
    "loader_hidden t = loader_hidden s"
    "searchName t = searchName s" "searchCode t = searchCode s"
    "searchCapital t = searchCapital s" "searchRegion t = searchRegion s"
    "suggestions t = suggestions s" "suggestions_display t = suggestions_display s"
    "feedbackText t = feedbackText s" "ratingText t = ratingText s" "stars t = stars s"
    "feedbackSuccessMsg_hidden t = feedbackSuccessMsg_hidden s"
    "feedbackModal_shown t = feedbackModal_shown s"
    "alerts t = alerts s" "console t = console s" "fetches t = fetches s" "timers t = timers s"
  using arg_cong [OF assms, of currentPage] arg_cong [OF assms, of paginatedCountries]
    arg_cong [OF assms, of allCountries] arg_cong [OF assms, of selectedRating]
    arg_cong [OF assms, of loader_hidden]
    arg_cong [OF assms, of searchName] arg_cong [OF assms, of searchCode]
    arg_cong [OF assms, of searchCapital] arg_cong [OF assms, of searchRegion]
    arg_cong [OF assms, of suggestions] arg_cong [OF assms, of suggestions_display]
    arg_cong [OF assms, of feedbackText] arg_cong [OF assms, of ratingText]
    arg_cong [OF assms, of stars] arg_cong [OF assms, of feedbackSuccessMsg_hidden]
    arg_cong [OF assms, of feedbackModal_shown]
    arg_cong [OF assms, of alerts] arg_cong [OF assms, of console]
    arg_cong [OF assms, of fetches] arg_cong [OF assms, of timers]
  by (simp_all add: unrendered_def)

lemmas renderPage_frame = frame [OF unrendered_renderPage]

text \<open>A page of countries, none of them \<open>undefined\<close>, renders without a throw.\<close>

lemma append_cards_defined: "\<not> throws (append_cards (map Some cs) s)"
  by (induction cs arbitrary: s) simp_all

lemma renderPage_defined:
  assumes "paginatedCountries s = map Some cs"
  shows "\<not> throws (renderPage s)"
proof -
  let ?d = "displayCountries
      (slice (paginatedCountries s) ((currentPage s - 1) * itemsPerPage)
         ((currentPage s - 1) * itemsPerPage + itemsPerPage)) s"
  have "\<not> throws (displayCountries (map Some ds) s)" for ds
    by (simp add: displayCountries_def append_cards_defined)
  then have "\<not> throws ?d"
    by (simp add: assms slice_map)
  then show ?thesis
    by (cases ?d) (simp_all add: renderPage_def Let_def)
qed

lemma applyPagination_Nil:
  "applyPagination lc [] s =
     Normal (s\<lparr>paginatedCountries := [], currentPage := 1,
       country_list := [NoCountriesFoundMessage], pagination := None,
       countryCount := ''(0 countries found)''\<rparr>)"
  by (simp add: applyPagination_def array_sort_Nil renderPage_def showNoCountriesFound_def
      updateCountryCount_def string_of_nat_0)

text \<open>The number of pages in integer arithmetic.\<close>

lemma ceil_div: "\<lceil>real n / real_of_int itemsPerPage\<rceil> = (int n + 8) div 9"
proof -
  have "real n / real_of_int itemsPerPage = of_int (int n) / of_int 9"
    by (simp add: itemsPerPage_def)
  then have "\<lceil>real n / real_of_int itemsPerPage\<rceil> = - (- int n div 9)"
    by (simp only: ceiling_divide_eq_div)
  also have "\<dots> = (int n + 8) div 9" by presburger
  finally show ?thesis .
qed

lemma totalPages_div: "totalPages s = (int (length (paginatedCountries s)) + 8) div 9"
  unfolding totalPages_def by (rule ceil_div)

lemma cursor_invariant_iff:
  "cursor_invariant s \<longleftrightarrow> 1 \<le> currentPage s \<and> currentPage s \<le> max 1 (totalPages s)"
  by (simp add: cursor_invariant_def totalPages_def)

lemma cursor_invariant_ten: "cursor_invariant ten_results"
  by (simp add: cursor_invariant_def ceil_div ten_results_def empty_document_def)

section \<open>The search dispatcher\<close>

text \<open>
  The request that a call of \<open>searchCountries\<close> sends, for every content of the four
  inputs: the name, the code and the capital are tested and sent trimmed, the region is
  tested against the empty string and sent as it is.
\<close>

lemma searchCountries_dispatch:
  "fetches (searchCountries s) = fetches s @
     [if \<not> blank (searchName s) then FetchName (trim (searchName s))
      else if \<not> blank (searchCode s) then FetchAlpha (trim (searchCode s))
      else if \<not> blank (searchCapital s) then FetchCapital (trim (searchCapital s))
      else if searchRegion s \<noteq> [] then FetchRegion (searchRegion s)
      else FetchAll]"
  by (simp add: searchCountries_def Let_def trim_Nil_iff [symmetric] searchByName_def
      searchByCode_def searchByCapital_def searchByRegion_def loadAllCountries_def
      showLoader_def)

text \<open>
  Claim C1.  The region is the value of a \<open>select\<close>, drawn from an enumerated set: the
  empty string or the name of a region, never white space only.  Every call of
  \<open>searchCountries\<close> then sends exactly one request: the lookup of the first of name,
  code, capital and region that is not empty after trimming, and the lookup of all
  countries when all four are empty.
\<close>

theorem searchCountries_first_filter:
  assumes "searchRegion s = [] \<or> \<not> blank (searchRegion s)"
  shows "fetches (searchCountries s) = fetches s @
     [if trim (searchName s) \<noteq> [] then FetchName (trim (searchName s))
      else if trim (searchCode s) \<noteq> [] then FetchAlpha (trim (searchCode s))
      else if trim (searchCapital s) \<noteq> [] then FetchCapital (trim (searchCapital s))
      else if trim (searchRegion s) \<noteq> [] then FetchRegion (searchRegion s)
      else FetchAll]"
proof -
  have "blank (searchRegion s) \<longleftrightarrow> searchRegion s = []"
    using assms by (auto simp: blank_def)
  then show ?thesis
    by (simp add: searchCountries_dispatch trim_Nil_iff)
qed

text \<open>
  With all four filters filled in, only the lookup by name is sent; with the region
  alone, the lookup by region; with none, the lookup of all countries.
\<close>

theorem searchCountries_first_filter_witness:
  "\<not> blank ''Americas''
   \<and> fetches (searchCountries (empty_document\<lparr>searchName := '' chile '', searchCode := ''CL'',
        searchCapital := ''Santiago'', searchRegion := ''Americas''\<rparr>)) = [FetchName ''chile'']
   \<and> fetches (searchCountries (empty_document\<lparr>searchRegion := ''Americas''\<rparr>))
        = [FetchRegion ''Americas'']
   \<and> searchRegion empty_document = []
   \<and> fetches (searchCountries empty_document) = [FetchAll]"
proof -
  have 1: "\<not> blank ''Americas''"
    by (simp add: blank_def whitespace_def)
  have 2: "searchRegion empty_document = []"
    by (simp add: empty_document_def)
  have 3: "searchRegion (empty_document\<lparr>searchName := '' chile '', searchCode := ''CL'',
        searchCapital := ''Santiago'', searchRegion := ''Americas''\<rparr>) = ''Americas''"
    "searchRegion (empty_document\<lparr>searchRegion := ''Americas''\<rparr>) = ''Americas''"
    by simp_all
  have a: "fetches (searchCountries (empty_document\<lparr>searchName := '' chile '',
        searchCode := ''CL'', searchCapital := ''Santiago'', searchRegion := ''Americas''\<rparr>))
      = [FetchName ''chile'']"
    using searchCountries_first_filter [of "empty_document\<lparr>searchName := '' chile '',
        searchCode := ''CL'', searchCapital := ''Santiago'', searchRegion := ''Americas''\<rparr>"] 1
    by (simp add: empty_document_def whitespace_def trim_def)
  have b: "fetches (searchCountries (empty_document\<lparr>searchRegion := ''Americas''\<rparr>))
      = [FetchRegion ''Americas'']"
    using searchCountries_first_filter [of "empty_document\<lparr>searchRegion := ''Americas''\<rparr>"] 1
    by (simp add: empty_document_def whitespace_def trim_def)
  have c: "fetches (searchCountries empty_document) = [FetchAll]"
    using searchCountries_first_filter [of empty_document] 2
    by (simp add: empty_document_def whitespace_def trim_def)
  from 1 2 a b c show ?thesis by simp
qed

text \<open>
  The hypothesis on the region is needed: a value of one space, which no option of the
  \<open>select\<close> holds, would be sent to the lookup by region.
\<close>

lemma searchCountries_blank_region:
  "fetches (searchCountries (empty_document\<lparr>searchRegion := '' ''\<rparr>)) = [FetchRegion '' '']"
  by (simp add: empty_document_def searchCountries_def trim_def
      searchByRegion_def showLoader_def Let_def)

section \<open>The pagination controller\<close>

text \<open>
  Claim C2.  After \<open>applyPagination\<close> of a list of countries, the result set is that list
  sorted by common name under \<open>localeCompare\<close>: a permutation of the list, in ascending
  order, the countries of one rank in the order they came in; and the current page is 1.
  The call does not throw.  \<open>localeCompare\<close> is any consistent comparator.
\<close>

theorem applyPagination_sorted:
  assumes "consistent localeCompare"
  shows "\<exists>rs. paginatedCountries (state_of (applyPagination localeCompare (map Some cs) s))
               = map Some rs
           \<and> mset rs = mset cs
           \<and> sorted_wrt (\<lambda>a b. localeCompare (name_common a) (name_common b) \<le> 0) rs
           \<and> (\<forall>k. filter (\<lambda>c. same_rank localeCompare (name_common c) k) rs
                  = filter (\<lambda>c. same_rank localeCompare (name_common c) k) cs)
           \<and> currentPage (state_of (applyPagination localeCompare (map Some cs) s)) = 1
           \<and> \<not> throws (applyPagination localeCompare (map Some cs) s)"
proof -
  let ?cmp = "by_common_name localeCompare"
  let ?rs = "sort_by ?cmp cs"
  from assms have c: "consistent ?cmp" by (rule consistent_by_common_name)
  have 1: "paginatedCountries (state_of (applyPagination localeCompare (map Some cs) s))
      = map Some ?rs"
    by (simp add: applyPagination_def renderPage_frame array_sort_defined)
  have 2: "mset ?rs = mset cs" by (rule mset_sort_by)
  have 3: "sorted_wrt (\<lambda>a b. localeCompare (name_common a) (name_common b) \<le> 0) ?rs"
    using sorted_sort_by [OF c, of cs] by (simp add: by_common_name_def)
  have 4: "filter (\<lambda>c. same_rank localeCompare (name_common c) k) ?rs
      = filter (\<lambda>c. same_rank localeCompare (name_common c) k) cs" for k
    using filter_sort_by [OF c, of "country_named k" cs]
    by (simp add: by_common_name_def same_rank_def country_named_def)
  have 5: "currentPage (state_of (applyPagination localeCompare (map Some cs) s)) = 1"
    by (simp add: applyPagination_def renderPage_frame)
  have 6: "\<not> throws (applyPagination localeCompare (map Some cs) s)"
    unfolding applyPagination_def
    by (rule renderPage_defined [where cs = ?rs]) (simp add: array_sort_defined)
  from 1 2 3 4 5 6 show ?thesis by blast
qed

theorem applyPagination_sorted_witness:
  "consistent compare_units \<and>
   (\<exists>rs. paginatedCountries (state_of (applyPagination compare_units
             (map Some [country_named ''Chile'', country_named ''Chad'']) empty_document))
            = map Some rs
       \<and> mset rs = mset [country_named ''Chile'', country_named ''Chad'']
       \<and> sorted_wrt (\<lambda>a b. compare_units (name_common a) (name_common b) \<le> 0) rs)
   \<and> currentPage (state_of (applyPagination compare_units
        (map Some [country_named ''Chile'', country_named ''Chad'']) empty_document)) = 1"
  using applyPagination_sorted [OF consistent_compare_units,
      of "[country_named ''Chile'', country_named ''Chad'']" empty_document]
    consistent_compare_units
  by blast

text \<open>Chile, China, Chad come out as Chad, Chile, China on page 1 of 1.\<close>

lemma applyPagination_example:
  "applyPagination compare_units
     (map Some [country_named ''Chile'', country_named ''China'', country_named ''Chad''])
     empty_document
   = Normal (empty_document\<lparr>
       paginatedCountries :=
         map Some [country_named ''Chad'', country_named ''Chile'', country_named ''China''],
       searchPlaceholder := DisplayNone,
       country_list :=
         map Card [country_named ''Chad'', country_named ''Chile'', country_named ''China''],
       countryCount := ''(3 countries found)'',
       pagination :=
         Some \<lparr>page = 1, pages = 1, prev_disabled = True, next_disabled = True\<rparr>\<rparr>)"
  by code_simp

text \<open>
  Claim C3.  The invariant \<open>1 \<le> currentPage \<le> max(1, ceil(|ResultSet| / pageSize))\<close>
  holds in the initial state, holds after every \<open>applyPagination\<close>, and is kept by
  \<open>prevPage\<close> and by \<open>nextPage\<close>, whether the rendering throws or not.
\<close>

theorem cursor_invariant_preserved:
  "cursor_invariant (initial document) \<and>
   cursor_invariant (state_of (applyPagination lc countries s)) \<and>
   (cursor_invariant s \<longrightarrow> cursor_invariant (state_of (prevPage s))) \<and>
   (cursor_invariant s \<longrightarrow> cursor_invariant (state_of (nextPage s)))"
proof (intro conjI impI)
  show "cursor_invariant (initial document)"
    by (simp add: cursor_invariant_def initial_def)
  show "cursor_invariant (state_of (applyPagination lc countries s))"
    by (simp add: cursor_invariant_def applyPagination_def renderPage_frame)
next
  assume inv: "cursor_invariant s"
  show "cursor_invariant (state_of (prevPage s))"
  proof (cases "currentPage s > 1")
    case True
    with inv show ?thesis
      by (simp add: cursor_invariant_def prevPage_def renderPage_frame)
  next
    case False
    with inv show ?thesis by (simp add: prevPage_def)
  qed
  show "cursor_invariant (state_of (nextPage s))"
  proof (cases "currentPage s < totalPages s")
    case True
    with inv show ?thesis
      by (simp add: cursor_invariant_iff nextPage_def renderPage_frame totalPages_def)
  next
    case False
    with inv show ?thesis by (simp add: nextPage_def)
  qed
qed

theorem cursor_invariant_preserved_witness:
  "cursor_invariant ten_results \<and>
   cursor_invariant (state_of (nextPage ten_results)) \<and>
   cursor_invariant (state_of (prevPage (state_of (nextPage ten_results))))"
  using cursor_invariant_preserved [of empty_document compare_units "[]" ten_results]
    cursor_invariant_preserved
      [of empty_document compare_units "[]" "state_of (nextPage ten_results)"]
    cursor_invariant_ten
  by simp

text \<open>
  Claim C10.  \<open>prevPage\<close> and \<open>nextPage\<close> leave the result set as it is: apart from what
  rendering writes, the state after the call is the state before it with a new
  \<open>currentPage\<close>.
\<close>

theorem navigation_frame:
  "unrendered (state_of (prevPage s))
     = unrendered (s\<lparr>currentPage := currentPage (state_of (prevPage s))\<rparr>)
   \<and> paginatedCountries (state_of (prevPage s)) = paginatedCountries s
   \<and> unrendered (state_of (nextPage s))
     = unrendered (s\<lparr>currentPage := currentPage (state_of (nextPage s))\<rparr>)
   \<and> paginatedCountries (state_of (nextPage s)) = paginatedCountries s"
proof -
  have r: "unrendered (state_of (renderPage t))
      = unrendered (s\<lparr>currentPage := currentPage (state_of (renderPage t))\<rparr>)"
    if "t = s\<lparr>currentPage := p\<rparr>" for t p
    by (simp add: that unrendered_renderPage renderPage_frame)
  show ?thesis
    by (simp add: prevPage_def nextPage_def r renderPage_frame)
qed

text \<open>
  Ten results on pages of nine: \<open>nextPage\<close> moves to page 2 of 2, which shows the tenth
  country only and disables the next button; the ten results stay.
\<close>

lemma nextPage_ten_results:
  "currentPage (state_of (nextPage ten_results)) = 2
   \<and> country_list (state_of (nextPage ten_results)) = [Card (country_named ''Azerbaijan'')]
   \<and> pagination (state_of (nextPage ten_results))
       = Some \<lparr>page = 2, pages = 2, prev_disabled = False, next_disabled = True\<rparr>"
  by (simp add: nextPage_def totalPages_div ten_results_def empty_document_def renderPage_def
      Let_def itemsPerPage_def slice_def displayCountries_def updateCountryCount_def
      updatePaginationControls_def)

theorem navigation_frame_witness:
  "paginatedCountries (state_of (nextPage ten_results)) = paginatedCountries ten_results
   \<and> paginatedCountries (state_of (prevPage (state_of (nextPage ten_results))))
       = paginatedCountries ten_results
   \<and> currentPage (state_of (nextPage ten_results)) = 2"
  using navigation_frame [of ten_results]
    navigation_frame [of "state_of (nextPage ten_results)"] nextPage_ten_results
  by simp

section \<open>Failed lookups\<close>

lemma failed_name:
  assumes "failed r"
  shows "settle (searchByName_then lc) (searchByName_catch lc) r s =
     s\<lparr>loader_hidden := True, paginatedCountries := [], currentPage := 1,
       country_list := [NoCountriesFoundMessage], pagination := None,
       countryCount := ''(0 countries found)''\<rparr>"
  using assms
  by (cases r rule: failed.cases)
    (simp_all add: settle_def searchByName_then_def searchByName_catch_def hideLoader_def
      applyPagination_Nil)

lemma failed_capital:
  assumes "failed r"
  shows "settle (searchByCapital_then lc) searchByCapital_catch r s =
     s\<lparr>loader_hidden := True, alerts := alerts s @ [''No country with that capital!'']\<rparr>"
  using assms
  by (cases r rule: failed.cases)
    (simp_all add: settle_def searchByCapital_then_def searchByCapital_catch_def hideLoader_def)

lemma failed_region:
  assumes "failed r"
  shows "settle (searchByRegion_then lc) searchByRegion_catch r s =
     s\<lparr>loader_hidden := True, alerts := alerts s @ [''Region not found!'']\<rparr>"
  using assms
  by (cases r rule: failed.cases)
    (simp_all add: settle_def searchByRegion_then_def searchByRegion_catch_def hideLoader_def)

text \<open>
  Claim C4, as the code has it.  A failed lookup by name empties the result set, resets
  the page to 1 and shows the "No countries found" message, with no alert.  A failed
  lookup by capital or by region raises its alert and changes nothing else but the
  loader: the result set and the cursor stay as they were.
\<close>

theorem failed_lookup_by_kind:
  assumes "failed r"
  shows "paginatedCountries (settle (searchByName_then lc) (searchByName_catch lc) r s) = []
    \<and> currentPage (settle (searchByName_then lc) (searchByName_catch lc) r s) = 1
    \<and> country_list (settle (searchByName_then lc) (searchByName_catch lc) r s)
        = [NoCountriesFoundMessage]
    \<and> alerts (settle (searchByName_then lc) (searchByName_catch lc) r s) = alerts s
    \<and> settle (searchByCapital_then lc) searchByCapital_catch r s
        = s\<lparr>loader_hidden := True,
             alerts := alerts s @ [''No country with that capital!'']\<rparr>
    \<and> settle (searchByRegion_then lc) searchByRegion_catch r s
        = s\<lparr>loader_hidden := True, alerts := alerts s @ [''Region not found!'']\<rparr>"
  by (simp add: failed_name [OF assms] failed_capital [OF assms] failed_region [OF assms])

theorem failed_lookup_by_kind_witness:
  "failed (Json JObject)
   \<and> paginatedCountries
       (settle (searchByName_then compare_units) (searchByName_catch compare_units)
          (Json JObject) one_result) = []
   \<and> paginatedCountries
       (settle (searchByCapital_then compare_units) searchByCapital_catch (Json JObject)
          one_result) = [Some (country_named ''Chad'')]
   \<and> paginatedCountries
       (settle (searchByRegion_then compare_units) searchByRegion_catch (Json JObject)
          one_result) = [Some (country_named ''Chad'')]"
  using failed_lookup_by_kind [of "Json JObject" compare_units one_result]
  by (simp add: one_result_def)

text \<open>
  A lookup by capital whose request is rejected keeps the one result that was shown and
  raises an alert.
\<close>

theorem failed_capital_keeps_results:
  "failed NetworkError
   \<and> paginatedCountries
       (settle (searchByCapital_then compare_units) searchByCapital_catch NetworkError
          one_result) = [Some (country_named ''Chad'')]
   \<and> paginatedCountries
       (settle (searchByCapital_then compare_units) searchByCapital_catch NetworkError
          one_result) \<noteq> []
   \<and> alerts
       (settle (searchByCapital_then compare_units) searchByCapital_catch NetworkError
          one_result) = [''No country with that capital!'']"
  by (simp add: settle_def searchByCapital_catch_def hideLoader_def one_result_def
      empty_document_def)

text \<open>
  A lookup by code whose request or parse rejects, or whose body is \<open>null\<close>, raises the
  alert and changes nothing else but the loader.
\<close>

lemma searchByCode_rejected:
  assumes "r = NetworkError \<or> r = InvalidJson \<or> r = Json JNull"
  shows "settle (searchByCode_then lc) searchByCode_catch r s
     = s\<lparr>loader_hidden := True, alerts := alerts s @ [''Invalid country code!'']\<rparr>"
  using assms
  by (auto simp: settle_def searchByCode_then_def searchByCode_catch_def hideLoader_def)

text \<open>
  Claim C5 fails on the code when the API answers the unknown code with its error
  object.  \<open>data[0]\<close> is then \<open>undefined\<close>, and \<open>applyPagination([undefined])\<close> replaces
  the result set and resets the page before the rendering throws; the alert is raised
  by the \<open>catch\<close> afterwards.  The result set is \<open>[undefined]\<close>, the page is 1 and the
  count reads "(1 countries found)", whatever they were before.
\<close>

theorem searchByCode_error_body:
  "paginatedCountries (settle (searchByCode_then lc) searchByCode_catch (Json JObject) s)
     = [None]
   \<and> currentPage (settle (searchByCode_then lc) searchByCode_catch (Json JObject) s) = 1
   \<and> country_list (settle (searchByCode_then lc) searchByCode_catch (Json JObject) s) = []
   \<and> countryCount (settle (searchByCode_then lc) searchByCode_catch (Json JObject) s)
     = ''(1 countries found)''
   \<and> alerts (settle (searchByCode_then lc) searchByCode_catch (Json JObject) s)
     = alerts s @ [''Invalid country code!'']"
  by (simp add: settle_def searchByCode_then_def searchByCode_catch_def hideLoader_def
      applyPagination_def array_sort_single renderPage_def Let_def itemsPerPage_def
      slice_def displayCountries_def updateCountryCount_def string_of_nat_1)

text \<open>The ten results on page 2 are lost to the failed lookup by code.\<close>

lemma searchByCode_error_body_example:
  "failed (Json JObject)
   \<and> length (paginatedCountries (state_of (nextPage ten_results))) = 10
   \<and> currentPage (state_of (nextPage ten_results)) = 2
   \<and> paginatedCountries (settle (searchByCode_then compare_units) searchByCode_catch
        (Json JObject) (state_of (nextPage ten_results))) = [None]
   \<and> currentPage (settle (searchByCode_then compare_units) searchByCode_catch
        (Json JObject) (state_of (nextPage ten_results))) = 1"
proof -
  have "paginatedCountries (state_of (nextPage ten_results)) = paginatedCountries ten_results"
    by (simp add: nextPage_def renderPage_frame)
  then have "length (paginatedCountries (state_of (nextPage ten_results))) = 10"
    by (simp add: ten_results_def)
  moreover have "paginatedCountries (settle (searchByCode_then compare_units)
      searchByCode_catch (Json JObject) t) = [None]
    \<and> currentPage (settle (searchByCode_then compare_units)
      searchByCode_catch (Json JObject) t) = 1" for t
    by (simp add: settle_def searchByCode_then_def searchByCode_catch_def hideLoader_def
      applyPagination_def array_sort_single renderPage_def Let_def itemsPerPage_def
      slice_def displayCountries_def updateCountryCount_def)
  ultimately show ?thesis using nextPage_ten_results by simp
qed

section \<open>Autocomplete\<close>

lemma matches_eq: "matches input catalog = take 5 (filter (\<lambda>c. contains_ci c input) catalog)"
  by (simp add: matches_def slice_0 contains_ci_def includes_str_sublist)

lemma target_suggestion_for: "map (target \<circ> suggestion_for input) cs = cs"
  by (induction cs) (simp_all add: suggestion_for_def Let_def)

lemma showSuggestions_targets:
  "input \<noteq> [] \<Longrightarrow>
     map target (suggestions (showSuggestions input s)) = matches input (allCountries s)"
  by (simp add: showSuggestions_def Let_def target_suggestion_for)

text \<open>
  Claim C6.  For a non-empty input, \<open>showSuggestions\<close> offers at most five countries;
  the common name of each contains the input, case-insensitively; they are the first
  five such countries of the catalog, in the order of the catalog.
\<close>

theorem showSuggestions_matches:
  assumes "input \<noteq> []"
  shows "length (map target (suggestions (showSuggestions input s))) \<le> 5
    \<and> (\<forall>c \<in> set (map target (suggestions (showSuggestions input s))). contains_ci c input)
    \<and> map target (suggestions (showSuggestions input s))
        = take 5 (filter (\<lambda>c. contains_ci c input) (allCountries s))
    \<and> subseq (map target (suggestions (showSuggestions input s))) (allCountries s)"
proof -
  let ?ms = "map target (suggestions (showSuggestions input s))"
  let ?all = "filter (\<lambda>c. contains_ci c input) (allCountries s)"
  have eq: "?ms = take 5 ?all"
    using assms by (simp add: showSuggestions_targets matches_eq)
  have len: "length ?ms \<le> 5" by (simp only: eq) simp
  have "set ?ms \<subseteq> set ?all" by (simp only: eq) (rule set_take_subset)
  then have each: "\<forall>c \<in> set ?ms. contains_ci c input" by auto
  have "subseq (take 5 ?all) ?all"
    by (metis append_take_drop_id prefix_def prefix_imp_subseq)
  moreover have "subseq ?all (allCountries s)" by simp
  ultimately have "subseq (take 5 ?all) (allCountries s)" by (rule subseq_order.trans)
  then have sub: "subseq ?ms (allCountries s)" by (simp only: eq)
  from len each eq sub show ?thesis by blast
qed

text \<open>In the catalog Chad, Chile, China: \<open>chi\<close> gives Chile and China, \<open>ch\<close> all three.\<close>

theorem showSuggestions_matches_witness:
  "''chi'' \<noteq> []
   \<and> map target (suggestions (showSuggestions ''chi'' catalog_example))
       = [country_named ''Chile'', country_named ''China'']
   \<and> ''ch'' \<noteq> []
   \<and> map target (suggestions (showSuggestions ''ch'' catalog_example))
       = [country_named ''Chad'', country_named ''Chile'', country_named ''China'']"
proof -
  have chi: "take 5 (filter (\<lambda>c. contains_ci c ''chi'') (allCountries catalog_example))
      = [country_named ''Chile'', country_named ''China'']"
    by code_simp
  have ch: "take 5 (filter (\<lambda>c. contains_ci c ''ch'') (allCountries catalog_example))
      = [country_named ''Chad'', country_named ''Chile'', country_named ''China'']"
    by code_simp
  have ne: "''chi'' \<noteq> []" "''ch'' \<noteq> []" by simp_all
  from showSuggestions_matches [OF ne(1), of catalog_example]
    showSuggestions_matches [OF ne(2), of catalog_example] chi ch
  show ?thesis by simp
qed

text \<open>
  Claim C7, as the code has it.  The empty input gives no suggestion and hides the panel,
  whatever the catalog.  Any other input, of white space only or not, hides the panel
  exactly when no common name of the catalog contains it.
\<close>

theorem showSuggestions_empty:
  "suggestions (showSuggestions [] s) = []
   \<and> suggestions_display (showSuggestions [] s) = DisplayNone
   \<and> (input \<noteq> [] \<longrightarrow>
        (suggestions_display (showSuggestions input s) = DisplayNone)
          = (\<forall>c \<in> set (allCountries s). \<not> contains_ci c input))"
proof -
  have "(matches input (allCountries s) = [])
      = (\<forall>c \<in> set (allCountries s). \<not> contains_ci c input)"
    by (simp add: matches_eq filter_empty_conv)
  then show ?thesis
    by (simp add: showSuggestions_def Let_def)
qed

theorem showSuggestions_empty_witness:
  "suggestions (showSuggestions [] catalog_example) = []
   \<and> suggestions_display (showSuggestions [] catalog_example) = DisplayNone
   \<and> '' '' \<noteq> []
   \<and> suggestions_display (showSuggestions '' '' catalog_example) = DisplayNone"
proof -
  have "list_all (\<lambda>c. \<not> contains_ci c '' '') (allCountries catalog_example)"
    by code_simp
  then have none: "\<forall>c \<in> set (allCountries catalog_example). \<not> contains_ci c '' ''"
    by (simp add: list_all_iff)
  have "'' '' \<noteq> []" by simp
  with none showSuggestions_empty [of catalog_example "'' ''"] show ?thesis by blast
qed

text \<open>
  An input of one space is blank; with Costa Rica in the catalog the panel is shown and
  offers Costa Rica.
\<close>

theorem showSuggestions_blank_input:
  "blank '' ''
   \<and> suggestions_display (showSuggestions '' '' costa_rica_catalog) = DisplayBlock
   \<and> map target (suggestions (showSuggestions '' '' costa_rica_catalog))
       = [country_named ''Costa Rica'']"
  by code_simp

section \<open>Feedback\<close>

text \<open>
  Claim C8.  With no star chosen, \<open>submitFeedback\<close> raises the alert for the missing
  rating and does nothing else: the rating and the comment stay and no request is sent.
  With a star chosen and a blank comment, it raises the alert for the missing comment
  and does nothing else.
\<close>

theorem submitFeedback_rejects:
  "(selectedRating s = 0 \<longrightarrow>
      submitFeedback s = s\<lparr>alerts := alerts s @ [''Please select a star rating.'']\<rparr>
      \<and> selectedRating (submitFeedback s) = selectedRating s
      \<and> feedbackText (submitFeedback s) = feedbackText s
      \<and> fetches (submitFeedback s) = fetches s)
   \<and> (selectedRating s \<noteq> 0 \<and> blank (feedbackText s) \<longrightarrow>
      submitFeedback s = s\<lparr>alerts := alerts s @ [''Please enter your feedback or query.'']\<rparr>
      \<and> fetches (submitFeedback s) = fetches s)"
  by (simp add: submitFeedback_def Let_def trim_Nil_iff)

theorem submitFeedback_rejects_witness:
  "selectedRating (empty_document\<lparr>feedbackText := ''great''\<rparr>) = 0
   \<and> alerts (submitFeedback (empty_document\<lparr>feedbackText := ''great''\<rparr>))
       = [''Please select a star rating.'']
   \<and> fetches (submitFeedback (empty_document\<lparr>feedbackText := ''great''\<rparr>)) = []
   \<and> selectedRating (setRating 3 empty_document) \<noteq> 0
   \<and> blank (feedbackText (setRating 3 empty_document))
   \<and> alerts (submitFeedback (setRating 3 empty_document))
       = [''Please enter your feedback or query.'']
   \<and> fetches (submitFeedback (setRating 3 empty_document)) = []"
proof -
  have 1: "selectedRating (empty_document\<lparr>feedbackText := ''great''\<rparr>) = 0"
    by (simp add: empty_document_def)
  have 2: "selectedRating (setRating 3 empty_document) \<noteq> 0"
    "blank (feedbackText (setRating 3 empty_document))"
    "alerts (setRating 3 empty_document) = []" "fetches (setRating 3 empty_document) = []"
    by (simp_all add: setRating_def empty_document_def blank_def)
  have 3: "alerts (empty_document\<lparr>feedbackText := ''great''\<rparr>) = []"
    "fetches (empty_document\<lparr>feedbackText := ''great''\<rparr>) = []"
    by (simp_all add: empty_document_def)
  from submitFeedback_rejects [of "empty_document\<lparr>feedbackText := ''great''\<rparr>"]
    submitFeedback_rejects [of "setRating 3 empty_document"] 1 2 3
  show ?thesis by simp
qed

text \<open>
  Claim C9.  With a star chosen and a comment that is not blank, \<open>submitFeedback\<close> shows
  the success message, sends the rating with the trimmed comment, and sets a timeout of
  2000 ms.  Whatever the outcome of the request, its handlers write to the console only,
  so the message stays shown.  The callback of the timeout, in whatever state it runs,
  sets the rating to 0, empties the comment and the rating text, deactivates every star,
  hides the success message and closes the modal.
\<close>

theorem submitFeedback_accepted:
  assumes "selectedRating s \<noteq> 0" and "\<not> blank (feedbackText s)"
  shows "feedbackSuccessMsg_hidden (submitFeedback s) = False
    \<and> fetches (submitFeedback s)
        = fetches s @ [PostFeedback (selectedRating s) (trim (feedbackText s))]
    \<and> timers (submitFeedback s) = timers s @ [(2000, FeedbackAutoClose)]
    \<and> (\<forall>r. submitFeedback_settled r (submitFeedback s)
          = (submitFeedback s)\<lparr>console := console (submitFeedback_settled r (submitFeedback s))\<rparr>)
    \<and> (\<forall>t. selectedRating (timeout FeedbackAutoClose t) = 0
          \<and> feedbackText (timeout FeedbackAutoClose t) = []
          \<and> ratingText (timeout FeedbackAutoClose t) = []
          \<and> stars (timeout FeedbackAutoClose t) = replicate (length (stars t)) False
          \<and> feedbackSuccessMsg_hidden (timeout FeedbackAutoClose t) = True
          \<and> feedbackModal_shown (timeout FeedbackAutoClose t) = False)"
proof -
  have settled: "submitFeedback_settled r t = t\<lparr>console := console (submitFeedback_settled r t)\<rparr>"
    for r t
    by (cases r) (simp_all add: submitFeedback_settled_def submitFeedback_then_def
        submitFeedback_catch_def)
  have stars: "map (\<lambda>star. False) xs = replicate (length xs) False" for xs :: "bool list"
    by (induction xs) simp_all
  from assms show ?thesis
    using settled [of _ "submitFeedback s"]
    by (simp add: submitFeedback_def Let_def trim_Nil_iff stars)
qed

text \<open>Three stars and the comment \<open>great\<close>.\<close>

theorem submitFeedback_accepted_witness:
  "selectedRating rated_great \<noteq> 0 \<and> \<not> blank (feedbackText rated_great)
   \<and> feedbackSuccessMsg_hidden (submitFeedback rated_great) = False
   \<and> fetches (submitFeedback rated_great) = [PostFeedback 3 ''great'']
   \<and> timers (submitFeedback rated_great) = [(2000, FeedbackAutoClose)]
   \<and> selectedRating (timeout FeedbackAutoClose (submitFeedback rated_great)) = 0
   \<and> feedbackText (timeout FeedbackAutoClose (submitFeedback rated_great)) = []
   \<and> ratingText (timeout FeedbackAutoClose (submitFeedback rated_great)) = []"
proof -
  have 1: "selectedRating rated_great \<noteq> 0" "selectedRating rated_great = 3"
    by (simp_all add: rated_great_def setRating_def)
  have 2: "\<not> blank (feedbackText rated_great)" "trim (feedbackText rated_great) = ''great''"
    by (simp_all add: rated_great_def blank_def whitespace_def trim_def)
  have 3: "fetches rated_great = []" "timers rated_great = []"
    by (simp_all add: rated_great_def setRating_def empty_document_def)
  from submitFeedback_accepted [OF 1(1) 2(1)] 1 2 3 show ?thesis by simp
qed

end
